theory Spec2Isabelle
  imports Complex_Main
begin

section \<open>Scalars, vectors and matrices\<close>

text \<open>
  A C++ \<^verbatim>\<open>double\<close> is modelled by a \<^typ>\<open>real\<close>: rounding, overflow and
  not-a-number are not part of the model.  Where the code divides, the theorems that read
  the quotient say which divisors they cover: in the code \<^verbatim>\<open>1. / 0.\<close> is infinite, a
  value \<^typ>\<open>real\<close> does not have.

  The fixed-size Eigen vectors and matrices are functions from the index enumerations, so a
  vector has exactly the coefficients its type declares.  The enumerators are listed in the
  order in which \<^verbatim>\<open>StraightLineStepper::boundState\<close> fills a free vector:
  \<^verbatim>\<open>pos[0], pos[1], pos[2], t, dir[0], dir[1], dir[2], q / p\<close>.
\<close>

datatype FreeParametersIndices =
  eFreePos0 | eFreePos1 | eFreePos2 | eFreeTime | eFreeDir0 | eFreeDir1 | eFreeDir2 | eFreeQOverP

datatype BoundParametersIndices =
  eBoundLoc0 | eBoundLoc1 | eBoundPhi | eBoundTheta | eBoundQOverP | eBoundTime

type_synonym Vector3D = "real \<times> real \<times> real"
type_synonym FreeVector = "FreeParametersIndices \<Rightarrow> real"
type_synonym BoundVector = "BoundParametersIndices \<Rightarrow> real"
type_synonym FreeMatrix = "FreeParametersIndices \<Rightarrow> FreeParametersIndices \<Rightarrow> real"
type_synonym BoundMatrix = "BoundParametersIndices \<Rightarrow> BoundParametersIndices \<Rightarrow> real"
type_synonym BoundSymMatrix = "BoundParametersIndices \<Rightarrow> BoundParametersIndices \<Rightarrow> real"
type_synonym BoundToFreeMatrix = "FreeParametersIndices \<Rightarrow> BoundParametersIndices \<Rightarrow> real"
type_synonym FreeToBoundMatrix = "BoundParametersIndices \<Rightarrow> FreeParametersIndices \<Rightarrow> real"

text \<open>The enumerator that follows, for the blocks \<^verbatim>\<open>segment<3>(i)\<close> takes.\<close>

fun succFree :: "FreeParametersIndices \<Rightarrow> FreeParametersIndices" where
  "succFree eFreePos0 = eFreePos1"
| "succFree eFreePos1 = eFreePos2"
| "succFree eFreePos2 = eFreeTime"
| "succFree eFreeTime = eFreeDir0"
| "succFree eFreeDir0 = eFreeDir1"
| "succFree eFreeDir1 = eFreeDir2"
| "succFree eFreeDir2 = eFreeQOverP"
| "succFree eFreeQOverP = eFreeQOverP"

text \<open>
  \<^verbatim>\<open>v.segment<3>(i)\<close>: the three coefficients from \<open>i\<close> on.  The code asks for the
  blocks at \<open>eFreePos0\<close> and \<open>eFreeDir0\<close> only; a block that would run past the last
  coefficient is refused by Eigen and is never requested.
\<close>

definition segment3 :: "FreeVector \<Rightarrow> FreeParametersIndices \<Rightarrow> Vector3D" where
  "segment3 v i = (v i, v (succFree i), v (succFree (succFree i)))"

definition squaredNorm :: "Vector3D \<Rightarrow> real" where
  "squaredNorm v = (case v of (x, y, z) \<Rightarrow> x * x + y * y + z * z)"

definition norm_v :: "Vector3D \<Rightarrow> real" where
  "norm_v v = sqrt (squaredNorm v)"

text \<open>
  Eigen's \<^verbatim>\<open>normalized()\<close>: the vector divided by its norm; a vector of squared norm
  zero is returned as it is (older versions of Eigen divide by the zero norm: either way
  the result is not a unit vector).
\<close>

definition normalized :: "Vector3D \<Rightarrow> Vector3D" where
  "normalized v =
     (let n2 = squaredNorm v in
      if n2 > 0 then (case v of (x, y, z) \<Rightarrow> (x / sqrt n2, y / sqrt n2, z / sqrt n2))
      else v)"

definition FreeMatrix_Identity :: FreeMatrix where
  "FreeMatrix_Identity = (\<lambda>i j. if i = j then 1 else 0)"

definition BoundMatrix_Identity :: BoundMatrix where
  "BoundMatrix_Identity = (\<lambda>i j. if i = j then 1 else 0)"

definition FreeVector_Zero :: FreeVector where
  "FreeVector_Zero = (\<lambda>i. 0)"

text \<open>\<^verbatim>\<open>std::numeric_limits<double>::max()\<close>, the largest finite double.\<close>

definition DBL_MAX :: real where
  "DBL_MAX = (2 ^ 53 - 1) * 2 ^ 971"

section \<open>Navigation direction and constrained step size\<close>

datatype NavigationDirection = backward | forward

text \<open>The integer behind the enumerator, as in \<^verbatim>\<open>ndir * stepSize\<close>.\<close>

fun navValue :: "NavigationDirection \<Rightarrow> real" where
  "navValue backward = - 1"
| "navValue forward = 1"

datatype StepType = accuracy | actor | aborter | user

text \<open>
  Modelled from the spec: the class \<^verbatim>\<open>ConstrainedStep\<close> is declared in a header that is
  not among the sources.  The step size holds one bound per constraint tier (section 4.1
  and the glossary: independently tracked bounds, the effective step size being the
  tightest one in the direction of travel), and a direction.  Built from one number, that
  number is the \<open>user\<close> bound, every other tier is unconstrained (the largest double, with
  the sign of the direction), and the direction is the sign of the number.  The unit test
  reads these values back: \<open>- 123\<close> for a backward state built with step size \<open>123\<close>, the
  largest double after \<^verbatim>\<open>resetState\<close> without a step size.
\<close>

record ConstrainedStep =
  cs_values :: "StepType \<Rightarrow> real"
  cs_direction :: NavigationDirection

definition ConstrainedStep_init :: "real \<Rightarrow> ConstrainedStep" where
  "ConstrainedStep_init v =
     (let d = (if v > 0 then forward else backward) in
      \<lparr> cs_values = (\<lambda>ty. if ty = user then v else navValue d * DBL_MAX),
        cs_direction = d \<rparr>)"

definition min_element :: "(StepType \<Rightarrow> real) \<Rightarrow> real" where
  "min_element vs = min (vs accuracy) (min (vs actor) (min (vs aborter) (vs user)))"

definition max_element :: "(StepType \<Rightarrow> real) \<Rightarrow> real" where
  "max_element vs = max (vs accuracy) (max (vs actor) (max (vs aborter) (vs user)))"

text \<open>
  Modelled from the spec: the conversion of a \<^verbatim>\<open>ConstrainedStep\<close> to a double, the
  effective step size: the tightest bound, that is the smallest one when going forward
  and the largest one when going backward.
\<close>

definition cs_value :: "ConstrainedStep \<Rightarrow> real" where
  "cs_value cs =
     (if cs_direction cs = forward then min_element (cs_values cs)
      else max_element (cs_values cs))"

section \<open>The stepper state\<close>

text \<open>
  The members of \<^verbatim>\<open>StraightLineStepper::State\<close> that the stepper and its unit test
  read and write.  The geometry context is an opaque token, and a surface is the
  capability the stepper consumes: the seed Jacobian of a bound parameter vector, which
  \<^verbatim>\<open>initJacobianToGlobal\<close> writes into the matrix it is handed.
\<close>

record 'ctx State =
  geoContext :: 'ctx
  jacToGlobal :: BoundToFreeMatrix
  jacTransport :: FreeMatrix
  derivative :: FreeVector
  jacobian :: BoundMatrix
  covTransport :: bool
  cov :: BoundSymMatrix
  pos :: Vector3D
  dir :: Vector3D
  p :: real
  q :: real
  t :: real
  navDir :: NavigationDirection
  pathAccumulated :: real
  stepSize :: ConstrainedStep
  previousStepSize :: real
  tolerance :: real

record 'ctx Surface =
  initJacobianToGlobal ::
    "'ctx \<Rightarrow> BoundToFreeMatrix \<Rightarrow> Vector3D \<Rightarrow> Vector3D \<Rightarrow> BoundVector \<Rightarrow> BoundToFreeMatrix"

text \<open>The accessors \<^verbatim>\<open>position(state)\<close> and \<^verbatim>\<open>direction(state)\<close>: pure reads.\<close>

definition position :: "'ctx State \<Rightarrow> Vector3D" where
  "position state = pos state"

definition direction :: "'ctx State \<Rightarrow> Vector3D" where
  "direction state = dir state"

section \<open>update and resetState\<close>

text \<open>
  \<^verbatim>\<open>update(state, parameters, covariance)\<close>.  For a \<open>q/p\<close> coefficient of zero the code
  stores an infinite momentum; the model has no such value, and the theorems on the
  momentum are stated for a coefficient other than zero.
\<close>

definition update :: "'ctx State \<Rightarrow> FreeVector \<Rightarrow> BoundSymMatrix \<Rightarrow> 'ctx State" where
  "update state parameters covariance =
     (let s1 = state\<lparr>pos := segment3 parameters eFreePos0\<rparr>;
          s2 = s1\<lparr>dir := normalized (segment3 parameters eFreeDir0)\<rparr>;
          s3 = s2\<lparr>p := \<bar>1 / parameters eFreeQOverP\<bar>\<rparr>;
          s4 = s3\<lparr>t := parameters eFreeTime\<rparr>
      in s4\<lparr>cov := covariance\<rparr>)"

text \<open>\<^verbatim>\<open>update(state, uposition, udirection, up, time)\<close>.\<close>

definition update4 :: "'ctx State \<Rightarrow> Vector3D \<Rightarrow> Vector3D \<Rightarrow> real \<Rightarrow> real \<Rightarrow> 'ctx State" where
  "update4 state uposition udirection up time =
     (let s1 = state\<lparr>pos := uposition\<rparr>;
          s2 = s1\<lparr>dir := udirection\<rparr>;
          s3 = s2\<lparr>p := up\<rparr>
      in s3\<lparr>t := time\<rparr>)"

text \<open>
  \<^verbatim>\<open>resetState(state, boundParams, cov, surface, navDir, stepSize)\<close>.  The conversion
  \<^verbatim>\<open>boundParameters2freeParameters\<close> lives in a header that is not among the sources
  and is a parameter of the model.
\<close>

definition resetState ::
  "('ctx \<Rightarrow> BoundVector \<Rightarrow> 'ctx Surface \<Rightarrow> FreeVector) \<Rightarrow> 'ctx State \<Rightarrow> BoundVector \<Rightarrow>
     BoundSymMatrix \<Rightarrow> 'ctx Surface \<Rightarrow> NavigationDirection \<Rightarrow> real \<Rightarrow> 'ctx State" where
  "resetState boundParameters2freeParameters state boundParams covariance surface ndir ssize =
     (let s1 = update state
                 (boundParameters2freeParameters (geoContext state) boundParams surface)
                 covariance;
          s2 = s1\<lparr>navDir := ndir\<rparr>;
          s3 = s2\<lparr>stepSize := ConstrainedStep_init ssize\<rparr>;
          s4 = s3\<lparr>pathAccumulated := 0\<rparr>;
          s5 = s4\<lparr>jacToGlobal :=
                   initJacobianToGlobal surface (geoContext s4) (jacToGlobal s4)
                     (position s4) (direction s4) boundParams\<rparr>;
          s6 = s5\<lparr>jacobian := BoundMatrix_Identity\<rparr>;
          s7 = s6\<lparr>jacTransport := FreeMatrix_Identity\<rparr>
      in s7\<lparr>derivative := FreeVector_Zero\<rparr>)"

text \<open>
  Modelled from the spec: the default arguments of \<^verbatim>\<open>resetState\<close> are declared with the
  class, in a header that is not among the sources.  Section 4.1 gives \<open>navDir = forward\<close>
  and an unconstrained step size; the unit test reads the step size of such a call back as
  \<^verbatim>\<open>std::numeric_limits<double>::max()\<close>.
\<close>

definition resetState_default ::
  "('ctx \<Rightarrow> BoundVector \<Rightarrow> 'ctx Surface \<Rightarrow> FreeVector) \<Rightarrow> 'ctx State \<Rightarrow> BoundVector \<Rightarrow>
     BoundSymMatrix \<Rightarrow> 'ctx Surface \<Rightarrow> NavigationDirection option \<Rightarrow> 'ctx State" where
  "resetState_default boundParameters2freeParameters state boundParams covariance surface ndir =
     resetState boundParameters2freeParameters state boundParams covariance surface
       (case ndir of None \<Rightarrow> forward | Some d \<Rightarrow> d) DBL_MAX"

text \<open>
  The unit test's state (lines 93 to 109 of the test file): position \<open>(1, 2, 3)\<close>,
  momentum \<open>(4, 5, 6)\<close>, time \<open>7\<close>, charge \<open>- 1\<close>, covariance eight times the identity,
  built going backward with step size \<open>123\<close> and tolerance \<open>234\<close>.  The constructor is
  not among the sources; the members are the ones the test reads back and section 4.1
  gives for a state built with a covariance.  The seed Jacobian of the test's curvilinear
  surface is not among the sources either: a matrix with the time and \<open>q/p\<close> entries, which
  pass through the conversion unchanged, stands for it.
\<close>

definition testSeed :: BoundToFreeMatrix where
  "testSeed = (\<lambda>i j. if (i = eFreeTime \<and> j = eBoundTime) \<or> (i = eFreeQOverP \<and> j = eBoundQOverP)
                       then 1 else 0)"

definition testState :: "unit State" where
  "testState =
     \<lparr> geoContext = (),
       jacToGlobal = testSeed,
       jacTransport = FreeMatrix_Identity,
       derivative = FreeVector_Zero,
       jacobian = BoundMatrix_Identity,
       covTransport = True,
       cov = (\<lambda>i j. if i = j then 8 else 0),
       pos = (1, 2, 3),
       dir = normalized (4, 5, 6),
       p = norm_v (4, 5, 6),
       q = - 1,
       t = 7,
       navDir = backward,
       pathAccumulated = 0,
       stepSize = ConstrainedStep_init (navValue backward * \<bar>123\<bar>),
       previousStepSize = 0,
       tolerance = 234 \<rparr>"

text \<open>
  A free vector for the examples: position \<open>(2, 4, 8)\<close>, time \<open>321\<close>, direction
  components \<open>(3, 4, 0)\<close>, which are not normalised, and \<open>q/p = 1/2\<close>, whose sign is the
  opposite of the charge of the test's state.
\<close>

definition sampleFree :: FreeVector where
  "sampleFree = (\<lambda>i. case i of
       eFreePos0 \<Rightarrow> 2 | eFreePos1 \<Rightarrow> 4 | eFreePos2 \<Rightarrow> 8 | eFreeTime \<Rightarrow> 321
     | eFreeDir0 \<Rightarrow> 3 | eFreeDir1 \<Rightarrow> 4 | eFreeDir2 \<Rightarrow> 0 | eFreeQOverP \<Rightarrow> 1 / 2)"

section \<open>Step size: set and release\<close>

text \<open>
  Modelled from the spec: \<^verbatim>\<open>setStepSize\<close> and \<^verbatim>\<open>releaseStepSize\<close> are defined with
  the class, in a header that is not among the sources.  Section 4.1: the former records
  \<open>previousStepSize\<close> and then overwrites the active step size, the latter relaxes the
  active step size to the unconstrained bound; the tiers are independent, so releasing one
  never discards another.  The tier both work on is \<open>actor\<close>, the one the unit test names.
\<close>

definition release :: "StepType \<Rightarrow> ConstrainedStep \<Rightarrow> ConstrainedStep" where
  "release ty cs =
     cs\<lparr>cs_values := (cs_values cs)(ty := navValue (cs_direction cs) * DBL_MAX)\<rparr>"

definition setStepSize :: "'ctx State \<Rightarrow> real \<Rightarrow> 'ctx State" where
  "setStepSize state ssize =
     (let s1 = state\<lparr>previousStepSize := cs_value (stepSize state)\<rparr>
      in s1\<lparr>stepSize := (stepSize s1)\<lparr>cs_values := (cs_values (stepSize s1))(actor := ssize)\<rparr>\<rparr>)"

definition releaseStepSize :: "'ctx State \<Rightarrow> 'ctx State" where
  "releaseStepSize state = state\<lparr>stepSize := release actor (stepSize state)\<rparr>"

section \<open>step\<close>

text \<open>
  Modelled from the spec: \<^verbatim>\<open>step\<close> is defined with the class, in a header that is not
  among the sources.  Section 4.1: it moves the position along the direction by the
  current signed step size, which is the path length it returns, and with covariance
  bookkeeping active it accumulates the transport derivative and the transport Jacobian.
  It must leave the direction renormalised.  The spec does not give the time a step takes
  nor the derivative and Jacobian of one step: they are parameters.  The straight-line
  step has no failing case.
\<close>

definition step ::
  "(real \<Rightarrow> 'ctx State \<Rightarrow> real) \<Rightarrow> (real \<Rightarrow> 'ctx State \<Rightarrow> FreeMatrix) \<Rightarrow>
     (real \<Rightarrow> 'ctx State \<Rightarrow> FreeVector) \<Rightarrow> 'ctx State \<Rightarrow> 'ctx State \<times> real" where
  "step stepTime stepJacobian stepDerivative state =
     (let h = cs_value (stepSize state);
          s1 = state\<lparr>pos := (case (pos state, dir state) of
                   ((x, y, z), (dx, dy, dz)) \<Rightarrow> (x + h * dx, y + h * dy, z + h * dz))\<rparr>;
          s2 = s1\<lparr>t := t s1 + stepTime h state\<rparr>;
          s3 = (if covTransport s2
                then s2\<lparr>jacTransport := stepJacobian h state,
                        derivative := stepDerivative h state\<rparr>
                else s2);
          s4 = s3\<lparr>dir := normalized (dir s3)\<rparr>
      in (s4\<lparr>pathAccumulated := pathAccumulated s4 + h\<rparr>, h))"

section \<open>Covariance transport and snapshots\<close>

text \<open>
  The free vector the stepper assembles before it calls the covariance engine:
  \<^verbatim>\<open>parameters << pos[0], pos[1], pos[2], t, dir[0], dir[1], dir[2], q / p\<close>.  For a
  momentum of zero the last coefficient is infinite or not a number in the code; no
  theorem below reads it.
\<close>

definition freeParameters :: "'ctx State \<Rightarrow> FreeVector" where
  "freeParameters state =
     (case (pos state, dir state) of
        ((x, y, z), (dx, dy, dz)) \<Rightarrow>
          (\<lambda>i. case i of
                 eFreePos0 \<Rightarrow> x | eFreePos1 \<Rightarrow> y | eFreePos2 \<Rightarrow> z
               | eFreeTime \<Rightarrow> t state
               | eFreeDir0 \<Rightarrow> dx | eFreeDir1 \<Rightarrow> dy | eFreeDir2 \<Rightarrow> dz
               | eFreeQOverP \<Rightarrow> q state / p state))"

text \<open>
  The five members every call of the covariance engine is handed, in this order:
  \<^verbatim>\<open>state.cov, state.jacobian, state.jacTransport, state.derivative, state.jacToGlobal\<close>.
  The engine of \<^verbatim>\<open>covarianceTransport\<close> returns nothing and the unit test finds the
  members changed after the call, so the engine writes through them: in the model it
  returns their new values, which the stepper's state then holds.
\<close>

record TransportRefs =
  r_cov :: BoundSymMatrix
  r_jacobian :: BoundMatrix
  r_jacTransport :: FreeMatrix
  r_derivative :: FreeVector
  r_jacToGlobal :: BoundToFreeMatrix

definition loadRefs :: "'ctx State \<Rightarrow> TransportRefs" where
  "loadRefs state =
     \<lparr> r_cov = cov state, r_jacobian = jacobian state, r_jacTransport = jacTransport state,
       r_derivative = derivative state, r_jacToGlobal = jacToGlobal state \<rparr>"

definition storeRefs :: "'ctx State \<Rightarrow> TransportRefs \<Rightarrow> 'ctx State" where
  "storeRefs state r =
     state\<lparr>cov := r_cov r, jacobian := r_jacobian r, jacTransport := r_jacTransport r,
           derivative := r_derivative r, jacToGlobal := r_jacToGlobal r\<rparr>"

text \<open>
  \<^verbatim>\<open>covarianceTransport(state)\<close> and \<^verbatim>\<open>covarianceTransport(state, surface)\<close>.  The
  engine, \<^verbatim>\<open>detail::covarianceTransport\<close>, is a parameter: besides the five members it
  is handed the direction, or the geometry context, the free vector and the surface.
\<close>

definition covarianceTransport ::
  "(TransportRefs \<Rightarrow> Vector3D \<Rightarrow> TransportRefs) \<Rightarrow> 'ctx State \<Rightarrow> 'ctx State" where
  "covarianceTransport engine state = storeRefs state (engine (loadRefs state) (dir state))"

definition covarianceTransport_surface ::
  "('ctx \<Rightarrow> TransportRefs \<Rightarrow> FreeVector \<Rightarrow> 'ctx Surface \<Rightarrow> TransportRefs) \<Rightarrow>
     'ctx State \<Rightarrow> 'ctx Surface \<Rightarrow> 'ctx State" where
  "covarianceTransport_surface engine state surface =
     (let parameters = freeParameters state
      in storeRefs state (engine (geoContext state) (loadRefs state) parameters surface))"

text \<open>
  \<^verbatim>\<open>boundState(state, surface)\<close> and \<^verbatim>\<open>curvilinearState(state)\<close>: the snapshot is what
  the engine (\<^verbatim>\<open>detail::boundState\<close>, \<^verbatim>\<open>detail::curvilinearState\<close>, parameters of the
  model) returns.  The state is taken by a reference that is not \<^verbatim>\<open>const\<close> and the same
  five members are handed over as in \<^verbatim>\<open>covarianceTransport\<close>, here with the bookkeeping
  flag and the accumulated path.
\<close>

definition boundState ::
  "('ctx \<Rightarrow> TransportRefs \<Rightarrow> FreeVector \<Rightarrow> bool \<Rightarrow> real \<Rightarrow> 'ctx Surface \<Rightarrow> 'snap \<times> TransportRefs) \<Rightarrow>
     'ctx State \<Rightarrow> 'ctx Surface \<Rightarrow> 'snap \<times> 'ctx State" where
  "boundState engine state surface =
     (let parameters = freeParameters state;
          (snapshot, r) = engine (geoContext state) (loadRefs state) parameters
                            (covTransport state) (pathAccumulated state) surface
      in (snapshot, storeRefs state r))"

definition curvilinearState ::
  "(TransportRefs \<Rightarrow> FreeVector \<Rightarrow> bool \<Rightarrow> real \<Rightarrow> 'snap \<times> TransportRefs) \<Rightarrow>
     'ctx State \<Rightarrow> 'snap \<times> 'ctx State" where
  "curvilinearState engine state =
     (let parameters = freeParameters state;
          (snapshot, r) = engine (loadRefs state) parameters
                            (covTransport state) (pathAccumulated state)
      in (snapshot, storeRefs state r))"

subsection \<open>The covariance engine\<close>

definition sumFree :: "(FreeParametersIndices \<Rightarrow> real) \<Rightarrow> real" where
  "sumFree f = f eFreePos0 + f eFreePos1 + f eFreePos2 + f eFreeTime +
               f eFreeDir0 + f eFreeDir1 + f eFreeDir2 + f eFreeQOverP"

definition sumBound :: "(BoundParametersIndices \<Rightarrow> real) \<Rightarrow> real" where
  "sumBound f = f eBoundLoc0 + f eBoundLoc1 + f eBoundPhi + f eBoundTheta +
                f eBoundQOverP + f eBoundTime"

definition mul_Free_BoundToFree :: "FreeMatrix \<Rightarrow> BoundToFreeMatrix \<Rightarrow> BoundToFreeMatrix" where
  "mul_Free_BoundToFree A B = (\<lambda>i j. sumFree (\<lambda>k. A i k * B k j))"

definition mul_FreeToBound_BoundToFree :: "FreeToBoundMatrix \<Rightarrow> BoundToFreeMatrix \<Rightarrow> BoundMatrix" where
  "mul_FreeToBound_BoundToFree A B = (\<lambda>i j. sumFree (\<lambda>k. A i k * B k j))"

definition mul_Bound :: "BoundMatrix \<Rightarrow> BoundMatrix \<Rightarrow> BoundMatrix" where
  "mul_Bound A B = (\<lambda>i j. sumBound (\<lambda>k. A i k * B k j))"

definition transpose_Bound :: "BoundMatrix \<Rightarrow> BoundMatrix" where
  "transpose_Bound A = (\<lambda>i j. A j i)"

text \<open>
  The frame a transport re-anchors to, a given surface or the curvilinear frame: the map
  (c) of section 4.2, from free-frame perturbations onto the frame, and the seed Jacobian
  of the frame.  Both come from the geometry, which is not among the sources.
\<close>

record TargetFrame =
  toLocal :: FreeToBoundMatrix
  seed :: BoundToFreeMatrix

text \<open>
  Modelled from the spec: the full Jacobian of section 4.2, the product of (c) the map
  onto the target frame, (b) the transport Jacobian and (a) the seed Jacobian.
\<close>

definition fullJacobian :: "TargetFrame \<Rightarrow> TransportRefs \<Rightarrow> BoundMatrix" where
  "fullJacobian target r =
     mul_FreeToBound_BoundToFree (toLocal target)
       (mul_Free_BoundToFree (r_jacTransport r) (r_jacToGlobal r))"

text \<open>
  Modelled from the spec: \<^verbatim>\<open>detail::covarianceTransport\<close> is not among the sources.
  Sections 4.1 and 4.2: the covariance becomes \<open>J \<cdot> covariance \<cdot> J\<^sup>T\<close> for the full
  Jacobian \<open>J\<close>, the bound Jacobian since the last reset takes \<open>J\<close> up, the transport
  Jacobian is reset to the identity and the derivative to zero, and the seed Jacobian is
  the one of the frame the state is now anchored to.
\<close>

definition detail_covarianceTransport :: "TargetFrame \<Rightarrow> TransportRefs \<Rightarrow> TransportRefs" where
  "detail_covarianceTransport target r =
     (let jacFull = fullJacobian target r
      in \<lparr> r_cov = mul_Bound (mul_Bound jacFull (r_cov r)) (transpose_Bound jacFull),
           r_jacobian = mul_Bound jacFull (r_jacobian r),
           r_jacTransport = FreeMatrix_Identity,
           r_derivative = FreeVector_Zero,
           r_jacToGlobal = seed target \<rparr>)"

text \<open>The engine as the two overloads call it, for a geometry that gives the frames.\<close>

definition engine_curvilinear ::
  "(Vector3D \<Rightarrow> TargetFrame) \<Rightarrow> TransportRefs \<Rightarrow> Vector3D \<Rightarrow> TransportRefs" where
  "engine_curvilinear curvilinearFrame r direction' =
     detail_covarianceTransport (curvilinearFrame direction') r"

definition engine_surface ::
  "('ctx \<Rightarrow> FreeVector \<Rightarrow> 'ctx Surface \<Rightarrow> TargetFrame) \<Rightarrow>
     'ctx \<Rightarrow> TransportRefs \<Rightarrow> FreeVector \<Rightarrow> 'ctx Surface \<Rightarrow> TransportRefs" where
  "engine_surface surfaceFrame gctx r parameters surface =
     detail_covarianceTransport (surfaceFrame gctx parameters surface) r"

section \<open>Measurement\<close>

text \<open>
  A \<^verbatim>\<open>Measurement\<close> owns a parameter set, a shared pointer to its reference object and
  a source link.  The pointer is an address; what it points to lives in a store.  The
  parameter set and the source link are template arguments or classes that are not among
  the sources: they are type parameters, and their \<^verbatim>\<open>operator==\<close> and
  \<^verbatim>\<open>residual\<close> are parameters of the functions below.
\<close>

record ('sl, 'ps) Measurement =
  m_oParameters :: 'ps
  m_pReferenceObject :: nat
  m_sourceLink :: 'sl

definition referenceObject :: "(nat \<rightharpoonup> 'obj) \<Rightarrow> ('sl, 'ps) Measurement \<Rightarrow> 'obj option" where
  "referenceObject store m = store (m_pReferenceObject m)"

text \<open>\<^verbatim>\<open>Measurement::operator==\<close>.\<close>

definition Measurement_equal ::
  "('ps \<Rightarrow> 'ps \<Rightarrow> bool) \<Rightarrow> ('sl \<Rightarrow> 'sl \<Rightarrow> bool) \<Rightarrow>
     ('sl, 'ps) Measurement \<Rightarrow> ('sl, 'ps) Measurement \<Rightarrow> bool" where
  "Measurement_equal ps_equal sl_equal lhs rhs =
     (ps_equal (m_oParameters lhs) (m_oParameters rhs) \<and>
      m_pReferenceObject lhs = m_pReferenceObject rhs \<and>
      sl_equal (m_sourceLink lhs) (m_sourceLink rhs))"

text \<open>
  Modelled from the spec: the class \<^verbatim>\<open>ParameterSet\<close> is not among the sources.  Section
  3: an ordered subset of the parameter space with a value vector and an optional
  covariance; equality is exact value comparison.  A full parameter set holds a value for
  every bound parameter.
\<close>

record ParameterSet =
  m_params :: "BoundParametersIndices list"
  m_vValues :: "real list"
  m_optCovariance :: "real list list option"

record FullParameterSet =
  full_values :: BoundVector
  full_covariance :: "BoundSymMatrix option"

record BoundParameters =
  getParameterSet :: FullParameterSet

definition ParameterSet_equal :: "ParameterSet \<Rightarrow> ParameterSet \<Rightarrow> bool" where
  "ParameterSet_equal a b = (m_vValues a = m_vValues b \<and> m_optCovariance a = m_optCovariance b)"

text \<open>
  Modelled from the spec: the correction of a cyclic difference into the half-open
  interval from \<open>- pi\<close> (excluded) to \<open>pi\<close> (included), by whole turns; the azimuth is
  the cyclic parameter section 4.3 names.
\<close>

definition cyclic :: "BoundParametersIndices \<Rightarrow> bool" where
  "cyclic par = (par = eBoundPhi)"

definition wrap :: "real \<Rightarrow> real" where
  "wrap d = d - 2 * pi * of_int \<lceil>(d - pi) / (2 * pi)\<rceil>"

text \<open>
  Modelled from the spec: \<^verbatim>\<open>ParameterSet::residual\<close>, the elementwise difference to the
  values of the other set, with the cyclic components corrected.
\<close>

definition ParameterSet_residual :: "ParameterSet \<Rightarrow> FullParameterSet \<Rightarrow> real list" where
  "ParameterSet_residual this other =
     map (\<lambda>(par, v). let d = v - full_values other par in if cyclic par then wrap d else d)
       (zip (m_params this) (m_vValues this))"

text \<open>\<^verbatim>\<open>Measurement::residual\<close>.\<close>

definition Measurement_residual ::
  "('ps \<Rightarrow> FullParameterSet \<Rightarrow> 'res) \<Rightarrow> ('sl, 'ps) Measurement \<Rightarrow> BoundParameters \<Rightarrow> 'res" where
  "Measurement_residual residual m trackPars =
     residual (m_oParameters m) (getParameterSet trackPars)"

section \<open>Values for the examples\<close>

text \<open>
  The test's state after a step with covariance bookkeeping, which leaves a derivative
  other than zero (here its time entry), with the flag then switched off by assignment, as
  the unit test does before it steps.
\<close>

definition flaglessState :: "unit State" where
  "flaglessState =
     testState\<lparr>covTransport := False, derivative := (\<lambda>i. if i = eFreeTime then 1 else 0)\<rparr>"

definition sampleFrame :: TargetFrame where
  "sampleFrame =
     \<lparr> toLocal = (\<lambda>i j. if (i = eBoundTime \<and> j = eFreeTime) \<or>
                             (i = eBoundQOverP \<and> j = eFreeQOverP) then 1 else 0),
       seed = testSeed \<rparr>"

definition sampleSurface :: "unit Surface" where
  "sampleSurface =
     \<lparr> initJacobianToGlobal = (\<lambda>gctx jac position' direction' boundParams. jac) \<rparr>"

text \<open>
  A measurement of the azimuth alone, of value \<open>3\<close>, and track parameters of azimuth
  \<open>- 3\<close>.  A second measurement with the same parameter set and source link refers to
  another object, at another address, that has the same value.
\<close>

definition phiSet :: ParameterSet where
  "phiSet = \<lparr> m_params = [eBoundPhi], m_vValues = [3], m_optCovariance = None \<rparr>"

definition phiTrack :: BoundParameters where
  "phiTrack =
     \<lparr> getParameterSet =
         \<lparr> full_values = (\<lambda>par. if par = eBoundPhi then - 3 else 0),
           full_covariance = None \<rparr> \<rparr>"

definition phiMeasurement :: "(nat, ParameterSet) Measurement" where
  "phiMeasurement = \<lparr> m_oParameters = phiSet, m_pReferenceObject = 1, m_sourceLink = 7 \<rparr>"

definition twinMeasurement :: "(nat, ParameterSet) Measurement" where
  "twinMeasurement = \<lparr> m_oParameters = phiSet, m_pReferenceObject = 2, m_sourceLink = 7 \<rparr>"

definition sampleStore :: "nat \<rightharpoonup> unit Surface" where
  "sampleStore = [1 \<mapsto> sampleSurface, 2 \<mapsto> sampleSurface]"

section \<open>Facts on the scalars and vectors\<close>

lemma DBL_MAX_pos: "0 < DBL_MAX"
  by (simp add: DBL_MAX_def)

lemma cs_value_init_max: "cs_value (ConstrainedStep_init DBL_MAX) = DBL_MAX"
  using DBL_MAX_pos
  by (simp add: cs_value_def ConstrainedStep_init_def min_element_def Let_def)

lemma sqrt25: "sqrt 25 = 5"
  using real_sqrt_abs [of 5] by simp

lemma normalized_sample: "normalized (3, 4, 0) = (3 / 5, 4 / 5, 0)"
  by (simp add: normalized_def squaredNorm_def sqrt25)

lemma squaredNorm_normalized:
  assumes "squaredNorm v > 0"
  shows "squaredNorm (normalized v) = 1"
proof -
  obtain x y z where v: "v = (x, y, z)" by (cases v) auto
  define n where "n = sqrt (x * x + y * y + z * z)"
  have n2: "x * x + y * y + z * z > 0" using assms by (simp add: v squaredNorm_def)
  have nn: "n * n = x * x + y * y + z * z" using n2 by (simp add: n_def)
  have npos: "n \<noteq> 0" using n2 by (simp add: n_def)
  have nv: "normalized v = (x / n, y / n, z / n)"
    using n2 by (simp add: v normalized_def squaredNorm_def Let_def n_def)
  have "squaredNorm (normalized v) = (x * x + y * y + z * z) / (n * n)"
    by (simp add: nv squaredNorm_def add_divide_distrib)
  also have "\<dots> = 1" using npos by (simp add: nn [symmetric])
  finally show ?thesis .
qed

lemma squaredNorm_pos_iff: "squaredNorm v > 0 \<longleftrightarrow> v \<noteq> (0, 0, 0)"
proof -
  obtain x y z where v: "v = (x, y, z)" by (cases v) auto
  have "x * x + y * y + z * z = 0 \<longleftrightarrow> x = 0 \<and> y = 0 \<and> z = 0"
    by (metis add_nonneg_eq_0_iff zero_le_square add_nonneg_nonneg mult_eq_0_iff add.right_neutral)
  moreover have "x * x + y * y + z * z \<ge> 0" by simp
  ultimately show ?thesis by (auto simp: v squaredNorm_def less_le)
qed

lemma norm_normalized: "v \<noteq> (0, 0, 0) \<Longrightarrow> norm_v (normalized v) = 1"
  by (simp add: norm_v_def squaredNorm_normalized squaredNorm_pos_iff)

lemma norm_v_2: "norm_v (2, 0, 0) = 2"
  by (simp add: norm_v_def squaredNorm_def)

lemma DBL_MAX_big: "1337 < DBL_MAX"
  by (simp add: DBL_MAX_def)

lemma cs_value_init: "\<bar>v\<bar> \<le> DBL_MAX \<Longrightarrow> cs_value (ConstrainedStep_init v) = v"
  by (simp add: cs_value_def ConstrainedStep_init_def min_element_def max_element_def Let_def)

lemma pi_ge_3: "3 \<le> pi"
proof -
  have "sin (pi / 6) \<le> pi / 6" by (rule sin_x_le_x) simp
  then show ?thesis by (simp add: sin_30)
qed

lemma wrap_range: "- pi < wrap d \<and> wrap d \<le> pi"
proof -
  define k where "k = \<lceil>(d - pi) / (2 * pi)\<rceil>"
  have pos: "0 < 2 * pi" by simp
  have w: "wrap d = d - 2 * pi * of_int k" by (simp add: wrap_def k_def)
  have up: "(d - pi) / (2 * pi) \<le> of_int k" unfolding k_def by (rule le_of_int_ceiling)
  have lo: "of_int k - 1 < (d - pi) / (2 * pi)" unfolding k_def by linarith
  from up pos have a: "d - pi \<le> of_int k * (2 * pi)" by (simp add: pos_divide_le_eq)
  from lo pos have b: "(of_int k - 1) * (2 * pi) < d - pi" by (simp add: pos_less_divide_eq)
  from a b show ?thesis unfolding w by (simp add: algebra_simps)
qed

lemma wrap_6: "wrap 6 = 6 - 2 * pi"
proof -
  have "\<lceil>(6 - pi) / (2 * pi)\<rceil> = 1"
  proof (rule ceiling_unique)
    show "of_int 1 - 1 < (6 - pi) / (2 * pi)" using pi_less_4 by simp
    show "(6 - pi) / (2 * pi) \<le> of_int 1" using pi_ge_3 by (simp add: pos_divide_le_eq)
  qed
  then show ?thesis by (simp add: wrap_def)
qed

section \<open>The model against the unit test\<close>

text \<open>
  The values the unit test reads from its state: the step size \<open>- 123\<close> after
  construction, the previous step size \<open>- 123\<close> and the step size \<open>1337\<close> after
  \<^verbatim>\<open>setStepSize(state, 1337.)\<close>, and the step size \<open>- 246\<close> after a reset with that
  step size.
\<close>

lemma test_stepSize_constructed: "cs_value (stepSize testState) = - 123"
  using DBL_MAX_big
  by (simp add: testState_def ConstrainedStep_init_def cs_value_def max_element_def)

lemma test_setStepSize:
  "previousStepSize (setStepSize testState 1337) = - 123 \<and>
   cs_value (stepSize (setStepSize testState 1337)) = 1337"
  using DBL_MAX_big
  by (simp add: setStepSize_def Let_def test_stepSize_constructed)
     (simp add: testState_def ConstrainedStep_init_def cs_value_def max_element_def)

lemma test_resetState_stepSize:
  "cs_value (stepSize (resetState b2f state boundParams covariance surface forward (- 246))) =
     - 246"
  using DBL_MAX_big by (simp add: resetState_def Let_def cs_value_init)

section \<open>update and resetState: what is written and what is kept\<close>

text \<open>
  Claim C6.  The \<^verbatim>\<open>update\<close> overload that takes a free vector and a covariance
  overwrites the position with the first three coefficients of the vector, the time with
  the time coefficient, the direction with the normalised direction coefficients, the
  momentum with \<open>|1 / (q/p)|\<close> and the covariance with the given matrix.  The overload
  without a covariance writes the four kinematic members and nothing else.  (The momentum
  is read for a \<open>q/p\<close> other than zero: at zero the code stores an infinite momentum.)
\<close>

theorem update_overwrites:
  "pos (update state parameters covariance) =
     (parameters eFreePos0, parameters eFreePos1, parameters eFreePos2) \<and>
   t (update state parameters covariance) = parameters eFreeTime \<and>
   dir (update state parameters covariance) =
     normalized (parameters eFreeDir0, parameters eFreeDir1, parameters eFreeDir2) \<and>
   (parameters eFreeQOverP \<noteq> 0 \<longrightarrow>
      p (update state parameters covariance) = \<bar>1 / parameters eFreeQOverP\<bar>) \<and>
   cov (update state parameters covariance) = covariance \<and>
   update4 state uposition udirection up time =
     state\<lparr>pos := uposition, dir := udirection, p := up, t := time\<rparr>"
  by (simp add: update_def update4_def segment3_def)

theorem update_overwrites_witness:
  "sampleFree eFreeQOverP \<noteq> 0 \<and>
   pos (update testState sampleFree BoundMatrix_Identity) = (2, 4, 8) \<and>
   t (update testState sampleFree BoundMatrix_Identity) = 321 \<and>
   dir (update testState sampleFree BoundMatrix_Identity) = (3 / 5, 4 / 5, 0) \<and>
   p (update testState sampleFree BoundMatrix_Identity) = 2 \<and>
   cov (update testState sampleFree BoundMatrix_Identity) = BoundMatrix_Identity"
  using update_overwrites [of testState sampleFree BoundMatrix_Identity]
  by (simp add: sampleFree_def normalized_sample)

text \<open>
  Claim C9.  The \<^verbatim>\<open>update\<close> overload that takes a free vector and a covariance leaves
  the charge, the navigation direction, the step size, the previous step size, the
  accumulated path length, the tolerance, the seed Jacobian, the transport Jacobian and the
  derivative as they were (and so the bound Jacobian, the bookkeeping flag and the geometry
  context).  The charge is kept whatever the sign of the \<open>q/p\<close> coefficient: the last
  conjunct is the test's state, of charge \<open>- 1\<close>, updated with a positive \<open>q/p\<close>.
\<close>

theorem update_keeps:
  "q (update state parameters covariance) = q state \<and>
   navDir (update state parameters covariance) = navDir state \<and>
   stepSize (update state parameters covariance) = stepSize state \<and>
   previousStepSize (update state parameters covariance) = previousStepSize state \<and>
   pathAccumulated (update state parameters covariance) = pathAccumulated state \<and>
   tolerance (update state parameters covariance) = tolerance state \<and>
   jacToGlobal (update state parameters covariance) = jacToGlobal state \<and>
   jacTransport (update state parameters covariance) = jacTransport state \<and>
   derivative (update state parameters covariance) = derivative state \<and>
   jacobian (update state parameters covariance) = jacobian state \<and>
   covTransport (update state parameters covariance) = covTransport state \<and>
   geoContext (update state parameters covariance) = geoContext state \<and>
   0 < sampleFree eFreeQOverP \<and> q (update testState sampleFree covariance) = - 1"
  by (simp add: update_def sampleFree_def testState_def)

text \<open>
  Claim C10.  \<^verbatim>\<open>resetState\<close> leaves the charge, the previous step size and the
  tolerance as they were, for every argument; the bookkeeping flag and the geometry
  context are the only other members it does not write.  What it writes are the
  kinematics, the covariance, the navigation direction, the step size, the path length,
  the seed, bound and transport Jacobians and the derivative.
\<close>

theorem resetState_keeps:
  "q (resetState b2f state boundParams covariance surface ndir ssize) = q state \<and>
   previousStepSize (resetState b2f state boundParams covariance surface ndir ssize) =
     previousStepSize state \<and>
   tolerance (resetState b2f state boundParams covariance surface ndir ssize) =
     tolerance state \<and>
   covTransport (resetState b2f state boundParams covariance surface ndir ssize) =
     covTransport state \<and>
   geoContext (resetState b2f state boundParams covariance surface ndir ssize) =
     geoContext state"
  by (simp add: resetState_def update_def Let_def)

text \<open>
  Claim C1.  For every state, bound vector, covariance, surface, navigation direction and
  step size, \<^verbatim>\<open>resetState\<close> takes the kinematics and the covariance from the update with
  the free vector that the coordinate transform gives for the bound vector at the surface,
  asks the surface for the seed Jacobian at the new position and direction, and leaves the
  bound Jacobian and the transport Jacobian at the identity, the derivative at zero and the
  accumulated path length at zero.  With the step size left unspecified the signed step
  size is \<open>forward\<close> times the largest double, whatever the navigation direction.
\<close>

theorem resetState_anchors:
  "(let fp = b2f (geoContext state) boundParams surface;
        u = update state fp covariance;
        s' = resetState b2f state boundParams covariance surface ndir ssize
    in pos s' = pos u \<and> dir s' = dir u \<and> p s' = p u \<and> t s' = t u \<and> cov s' = covariance \<and>
       pos u = segment3 fp eFreePos0 \<and> dir u = normalized (segment3 fp eFreeDir0) \<and>
       t u = fp eFreeTime \<and>
       jacToGlobal s' =
         initJacobianToGlobal surface (geoContext state) (jacToGlobal state)
           (segment3 fp eFreePos0) (normalized (segment3 fp eFreeDir0)) boundParams \<and>
       jacobian s' = BoundMatrix_Identity \<and> jacTransport s' = FreeMatrix_Identity \<and>
       derivative s' = FreeVector_Zero \<and> pathAccumulated s' = 0 \<and> navDir s' = ndir \<and>
       stepSize s' = ConstrainedStep_init ssize) \<and>
   cs_value (stepSize (resetState_default b2f state boundParams covariance surface nd)) =
     navValue forward * DBL_MAX"
  by (simp add: resetState_def resetState_default_def update_def position_def direction_def
      cs_value_init_max Let_def)

section \<open>The direction\<close>

text \<open>
  Claim C2, as stated: the stored direction has unit norm after any call of \<^verbatim>\<open>update\<close>,
  of either overload.  It fails for the overload that takes the direction as an argument:
  that one stores the vector it is given, here \<open>(2, 0, 0)\<close>, of norm \<open>2\<close>.
\<close>

theorem update4_direction_counterexample:
  "norm_v (dir (update4 testState (2, 4, 8) (2, 0, 0) 1 321)) \<noteq> 1"
  by (simp add: update4_def norm_v_2)

text \<open>
  Claim C2, amended.  After the \<^verbatim>\<open>update\<close> that takes a free vector, after
  \<^verbatim>\<open>resetState\<close> and after \<^verbatim>\<open>step\<close> the stored direction has unit norm, whenever
  the direction it is normalised from (the direction coefficients of the free vector, the
  direction of the state before the step) is not the zero vector.  The \<^verbatim>\<open>update\<close>
  that takes the direction as an argument stores that argument as it is, so the stored
  direction has the norm of the argument.  (The norm is exactly one over the reals, and
  one up to rounding in the code.)
\<close>

theorem direction_unit_norm:
  "(segment3 parameters eFreeDir0 \<noteq> (0, 0, 0) \<longrightarrow>
      norm_v (dir (update state parameters covariance)) = 1) \<and>
   (segment3 (b2f (geoContext state) boundParams surface) eFreeDir0 \<noteq> (0, 0, 0) \<longrightarrow>
      norm_v (dir (resetState b2f state boundParams covariance surface ndir ssize)) = 1) \<and>
   (dir state \<noteq> (0, 0, 0) \<longrightarrow>
      norm_v (dir (fst (step stepTime stepJacobian stepDerivative state))) = 1) \<and>
   dir (update4 state uposition udirection up time) = udirection"
  by (simp add: update_def resetState_def update4_def step_def Let_def norm_normalized
      split: prod.splits)

theorem direction_unit_norm_witness:
  "segment3 sampleFree eFreeDir0 \<noteq> (0, 0, 0) \<and>
   norm_v (dir (update testState sampleFree BoundMatrix_Identity)) = 1 \<and>
   norm_v (dir (resetState (\<lambda>gctx boundParams surface. sampleFree) testState (\<lambda>i. 0)
                  BoundMatrix_Identity sampleSurface forward 1)) = 1 \<and>
   dir (update4 testState (2, 4, 8) (2, 0, 0) 1 321) \<noteq> (0, 0, 0) \<and>
   norm_v (dir (fst (step (\<lambda>h s. 0) (\<lambda>h s. FreeMatrix_Identity) (\<lambda>h s. FreeVector_Zero)
                       (update4 testState (2, 4, 8) (2, 0, 0) 1 321)))) = 1"
  using direction_unit_norm [where parameters = sampleFree and state = testState
      and covariance = BoundMatrix_Identity and b2f = "\<lambda>gctx boundParams surface. sampleFree"
      and boundParams = "\<lambda>i. 0" and surface = sampleSurface and ndir = forward and ssize = 1]
    direction_unit_norm [where state = "update4 testState (2, 4, 8) (2, 0, 0) 1 321"
      and stepTime = "\<lambda>h s. 0" and stepJacobian = "\<lambda>h s. FreeMatrix_Identity"
      and stepDerivative = "\<lambda>h s. FreeVector_Zero"]
  by (simp add: sampleFree_def segment3_def update4_def)

section \<open>Setting and releasing the step size\<close>

text \<open>
  Claim C5, as stated: after \<^verbatim>\<open>setStepSize\<close> and \<^verbatim>\<open>releaseStepSize\<close> the active
  step size is the navigation direction times the largest double.  It fails on the state
  of the unit test, built going backward with step size \<open>123\<close>: after
  \<^verbatim>\<open>setStepSize(state, 1337.)\<close> and \<^verbatim>\<open>releaseStepSize(state)\<close> the step size is
  \<open>- 123\<close> again, as the test asserts.
\<close>

theorem releaseStepSize_counterexample:
  "cs_value (stepSize (releaseStepSize (setStepSize testState 1337))) = - 123 \<and>
   cs_value (stepSize (releaseStepSize (setStepSize testState 1337))) \<noteq>
     navValue (navDir testState) * DBL_MAX"
  using DBL_MAX_big
  by (simp add: releaseStepSize_def setStepSize_def release_def Let_def testState_def
      ConstrainedStep_init_def cs_value_def max_element_def)

text \<open>
  Claim C5, amended.  \<^verbatim>\<open>setStepSize\<close> records the active step size as the previous
  step size and stores the new value in the \<open>actor\<close> tier; \<^verbatim>\<open>releaseStepSize\<close> then
  discards that value: the \<open>actor\<close> tier goes back to the unconstrained bound, and the
  active step size is the tightest, in the direction of the step size, of that bound and
  the bounds of the other tiers, which are kept.  It is the direction of the step size
  times the largest double when no other tier holds a bound.
\<close>

theorem releaseStepSize_value:
  "previousStepSize (setStepSize state ssize) = cs_value (stepSize state) \<and>
   cs_values (stepSize (setStepSize state ssize)) actor = ssize \<and>
   stepSize (releaseStepSize (setStepSize state ssize)) = release actor (stepSize state) \<and>
   cs_value (release actor (stepSize state)) =
     (if cs_direction (stepSize state) = forward
      then min (cs_values (stepSize state) accuracy)
             (min DBL_MAX
               (min (cs_values (stepSize state) aborter) (cs_values (stepSize state) user)))
      else max (cs_values (stepSize state) accuracy)
             (max (- DBL_MAX)
               (max (cs_values (stepSize state) aborter) (cs_values (stepSize state) user)))) \<and>
   (cs_values (stepSize state) accuracy = navValue (cs_direction (stepSize state)) * DBL_MAX \<and>
    cs_values (stepSize state) aborter = navValue (cs_direction (stepSize state)) * DBL_MAX \<and>
    cs_values (stepSize state) user = navValue (cs_direction (stepSize state)) * DBL_MAX \<longrightarrow>
    cs_value (stepSize (releaseStepSize (setStepSize state ssize))) =
      navValue (cs_direction (stepSize state)) * DBL_MAX)"
  by (cases "cs_direction (stepSize state)")
     (simp_all add: releaseStepSize_def setStepSize_def release_def Let_def cs_value_def
        max_element_def min_element_def)

theorem releaseStepSize_value_witness:
  "cs_values (ConstrainedStep_init DBL_MAX) accuracy =
     navValue (cs_direction (ConstrainedStep_init DBL_MAX)) * DBL_MAX \<and>
   cs_values (ConstrainedStep_init DBL_MAX) aborter =
     navValue (cs_direction (ConstrainedStep_init DBL_MAX)) * DBL_MAX \<and>
   cs_values (ConstrainedStep_init DBL_MAX) user =
     navValue (cs_direction (ConstrainedStep_init DBL_MAX)) * DBL_MAX \<and>
   cs_value (stepSize (releaseStepSize
     (setStepSize (testState\<lparr>stepSize := ConstrainedStep_init DBL_MAX\<rparr>) 1337))) = DBL_MAX"
  using releaseStepSize_value
      [where state = "testState\<lparr>stepSize := ConstrainedStep_init DBL_MAX\<rparr>" and ssize = 1337]
    DBL_MAX_pos
  by (simp add: ConstrainedStep_init_def)

section \<open>Covariance transport\<close>

text \<open>
  Claim C3, as stated: \<^verbatim>\<open>covarianceTransport\<close> is a no-op when the covariance
  bookkeeping flag is inactive.  It fails on a state with the flag off and a derivative
  other than zero: the stepper hands the covariance and the Jacobians to the engine
  without looking at the flag, and the derivative is zero afterwards.
\<close>

theorem covarianceTransport_counterexample:
  "covTransport flaglessState = False \<and>
   covarianceTransport (engine_curvilinear (\<lambda>d. sampleFrame)) flaglessState \<noteq> flaglessState"
proof -
  have "derivative (covarianceTransport (engine_curvilinear (\<lambda>d. sampleFrame)) flaglessState)
          eFreeTime = 0"
    by (simp add: covarianceTransport_def engine_curvilinear_def detail_covarianceTransport_def
        storeRefs_def Let_def FreeVector_Zero_def)
  moreover have "derivative flaglessState eFreeTime = 1"
    by (simp add: flaglessState_def)
  ultimately have
    "covarianceTransport (engine_curvilinear (\<lambda>d. sampleFrame)) flaglessState \<noteq> flaglessState"
    by (metis zero_neq_one)
  then show ?thesis by (simp add: flaglessState_def)
qed

text \<open>
  Claim C3, amended.  With or without a target surface, \<^verbatim>\<open>covarianceTransport\<close>
  replaces the stored covariance by \<open>J \<cdot> covariance \<cdot> J\<^sup>T\<close>, where \<open>J\<close> is the map
  onto the target frame (the given surface, or the curvilinear frame) composed with the
  transport Jacobian and the seed Jacobian; afterwards the transport Jacobian is the
  identity, the derivative is zero and the seed Jacobian is the one of the target frame.
  It does so whatever the covariance bookkeeping flag says: for every engine the result
  for a state and for the same state with another flag differ in the flag only, which the
  call neither reads nor writes.
\<close>

theorem covarianceTransport_chain_rule:
  "(let target = curvilinearFrame (dir state);
        J = mul_FreeToBound_BoundToFree (toLocal target)
              (mul_Free_BoundToFree (jacTransport state) (jacToGlobal state));
        s' = covarianceTransport (engine_curvilinear curvilinearFrame) state
    in cov s' = mul_Bound (mul_Bound J (cov state)) (transpose_Bound J) \<and>
       jacTransport s' = FreeMatrix_Identity \<and> derivative s' = FreeVector_Zero \<and>
       jacToGlobal s' = seed target \<and> covTransport s' = covTransport state) \<and>
   (let target = surfaceFrame (geoContext state) (freeParameters state) surface;
        J = mul_FreeToBound_BoundToFree (toLocal target)
              (mul_Free_BoundToFree (jacTransport state) (jacToGlobal state));
        s' = covarianceTransport_surface (engine_surface surfaceFrame) state surface
    in cov s' = mul_Bound (mul_Bound J (cov state)) (transpose_Bound J) \<and>
       jacTransport s' = FreeMatrix_Identity \<and> derivative s' = FreeVector_Zero \<and>
       jacToGlobal s' = seed target \<and> covTransport s' = covTransport state) \<and>
   covarianceTransport engine (state\<lparr>covTransport := b\<rparr>) =
     (covarianceTransport engine state)\<lparr>covTransport := b\<rparr> \<and>
   covarianceTransport_surface engine' (state\<lparr>covTransport := b\<rparr>) surface =
     (covarianceTransport_surface engine' state surface)\<lparr>covTransport := b\<rparr>"
  by (simp add: covarianceTransport_def covarianceTransport_surface_def engine_curvilinear_def
      engine_surface_def detail_covarianceTransport_def fullJacobian_def storeRefs_def
      loadRefs_def freeParameters_def Let_def split: prod.splits)

text \<open>
  \<^verbatim>\<open>boundState\<close> and \<^verbatim>\<open>curvilinearState\<close> write no member themselves: whatever the
  engine does with the five members it is handed, the kinematics, the charge, the step
  sizes, the navigation direction, the path length, the tolerance, the flag and the
  geometry context are the same after the call.
\<close>

lemma boundState_keeps:
  "(let s' = snd (boundState engine state surface)
    in pos s' = pos state \<and> dir s' = dir state \<and> p s' = p state \<and> q s' = q state \<and>
       t s' = t state \<and> navDir s' = navDir state \<and> stepSize s' = stepSize state \<and>
       previousStepSize s' = previousStepSize state \<and>
       pathAccumulated s' = pathAccumulated state \<and> tolerance s' = tolerance state \<and>
       covTransport s' = covTransport state \<and> geoContext s' = geoContext state) \<and>
   (let s' = snd (curvilinearState engine' state)
    in pos s' = pos state \<and> dir s' = dir state \<and> p s' = p state \<and> q s' = q state \<and>
       t s' = t state \<and> navDir s' = navDir state \<and> stepSize s' = stepSize state \<and>
       previousStepSize s' = previousStepSize state \<and>
       pathAccumulated s' = pathAccumulated state \<and> tolerance s' = tolerance state \<and>
       covTransport s' = covTransport state \<and> geoContext s' = geoContext state)"
  by (simp add: boundState_def curvilinearState_def storeRefs_def Let_def split: prod.splits)

section \<open>Measurements\<close>

text \<open>
  Claim C7.  \<^verbatim>\<open>Measurement::residual\<close> hands its parameter set and the parameter set
  of the track parameters to the residual of the parameter set.  That residual is the
  elementwise difference; for a cyclic parameter it is corrected by whole turns into the
  interval from \<open>- pi\<close>, excluded, to \<open>pi\<close>, included, and for any other parameter it is
  the plain difference.  For the azimuth values \<open>3\<close> and \<open>- 3\<close> the residual is
  \<open>6 - 2 pi\<close>, of magnitude \<open>2 pi - 6\<close>, which is less than \<open>2\<close>, and not \<open>6\<close>.
\<close>

theorem residual_wraparound:
  "Measurement_residual residual m trackPars =
     residual (m_oParameters m) (getParameterSet trackPars) \<and>
   (\<forall>i < length (ParameterSet_residual this other).
      (cyclic (m_params this ! i) \<longrightarrow>
         - pi < ParameterSet_residual this other ! i \<and>
         ParameterSet_residual this other ! i \<le> pi \<and>
         (\<exists>k::int. ParameterSet_residual this other ! i =
            m_vValues this ! i - full_values other (m_params this ! i) - 2 * pi * of_int k)) \<and>
      (\<not> cyclic (m_params this ! i) \<longrightarrow>
         ParameterSet_residual this other ! i =
           m_vValues this ! i - full_values other (m_params this ! i))) \<and>
   Measurement_residual ParameterSet_residual phiMeasurement phiTrack = [6 - 2 * pi] \<and>
   \<bar>6 - 2 * pi\<bar> = 2 * pi - 6 \<and> 2 * pi - 6 < 2"
proof -
  have range: "\<forall>i < length (ParameterSet_residual this other).
      (cyclic (m_params this ! i) \<longrightarrow>
         - pi < ParameterSet_residual this other ! i \<and>
         ParameterSet_residual this other ! i \<le> pi \<and>
         (\<exists>k::int. ParameterSet_residual this other ! i =
            m_vValues this ! i - full_values other (m_params this ! i) - 2 * pi * of_int k)) \<and>
      (\<not> cyclic (m_params this ! i) \<longrightarrow>
         ParameterSet_residual this other ! i =
           m_vValues this ! i - full_values other (m_params this ! i))"
  proof (intro allI impI)
    fix i assume "i < length (ParameterSet_residual this other)"
    then have i: "i < length (m_params this)" "i < length (m_vValues this)"
      by (simp_all add: ParameterSet_residual_def)
    then have nth: "ParameterSet_residual this other ! i =
        (let d = m_vValues this ! i - full_values other (m_params this ! i)
         in if cyclic (m_params this ! i) then wrap d else d)"
      by (simp add: ParameterSet_residual_def)
    show "(cyclic (m_params this ! i) \<longrightarrow>
         - pi < ParameterSet_residual this other ! i \<and>
         ParameterSet_residual this other ! i \<le> pi \<and>
         (\<exists>k::int. ParameterSet_residual this other ! i =
            m_vValues this ! i - full_values other (m_params this ! i) - 2 * pi * of_int k)) \<and>
      (\<not> cyclic (m_params this ! i) \<longrightarrow>
         ParameterSet_residual this other ! i =
           m_vValues this ! i - full_values other (m_params this ! i))"
      using wrap_range [of "m_vValues this ! i - full_values other (m_params this ! i)"]
      by (auto simp: nth Let_def wrap_def)
  qed
  have ex: "Measurement_residual ParameterSet_residual phiMeasurement phiTrack = [6 - 2 * pi]"
    using wrap_6
    by (simp add: Measurement_residual_def ParameterSet_residual_def phiMeasurement_def
        phiSet_def phiTrack_def cyclic_def)
  have small: "\<bar>6 - 2 * pi\<bar> = 2 * pi - 6 \<and> 2 * pi - 6 < 2"
    using pi_ge_3 pi_less_4 by simp
  show ?thesis using range ex small by (simp add: Measurement_residual_def)
qed

theorem residual_wraparound_witness:
  "0 < length (ParameterSet_residual phiSet (getParameterSet phiTrack)) \<and>
   cyclic (m_params phiSet ! 0) \<and>
   - pi < Measurement_residual ParameterSet_residual phiMeasurement phiTrack ! 0 \<and>
   Measurement_residual ParameterSet_residual phiMeasurement phiTrack ! 0 \<le> pi \<and>
   Measurement_residual ParameterSet_residual phiMeasurement phiTrack ! 0 = 6 - 2 * pi"
  using residual_wraparound [where this = phiSet and other = "getParameterSet phiTrack"
      and residual = ParameterSet_residual and m = phiMeasurement and trackPars = phiTrack]
  by (simp add: phiSet_def phiMeasurement_def phiTrack_def cyclic_def ParameterSet_residual_def
      Measurement_residual_def wrap_6)

text \<open>
  Claim C8.  Two measurements are equal if and only if their parameter sets compare
  equal, their reference objects are the same object, and their source links compare
  equal.  The reference objects are compared by address: measurements that refer to
  different addresses are unequal, whatever the objects at the two addresses hold.
\<close>

theorem Measurement_equality:
  "(Measurement_equal ps_equal sl_equal lhs rhs \<longleftrightarrow>
      ps_equal (m_oParameters lhs) (m_oParameters rhs) \<and>
      m_pReferenceObject lhs = m_pReferenceObject rhs \<and>
      sl_equal (m_sourceLink lhs) (m_sourceLink rhs)) \<and>
   (m_pReferenceObject lhs \<noteq> m_pReferenceObject rhs \<longrightarrow>
      \<not> Measurement_equal ps_equal sl_equal lhs rhs)"
  by (simp add: Measurement_equal_def)

theorem Measurement_equality_witness:
  "m_pReferenceObject phiMeasurement \<noteq> m_pReferenceObject twinMeasurement \<and>
   referenceObject sampleStore phiMeasurement = referenceObject sampleStore twinMeasurement \<and>
   ParameterSet_equal (m_oParameters phiMeasurement) (m_oParameters twinMeasurement) \<and>
   m_sourceLink phiMeasurement = m_sourceLink twinMeasurement \<and>
   \<not> Measurement_equal ParameterSet_equal (=) phiMeasurement twinMeasurement \<and>
   Measurement_equal ParameterSet_equal (=) phiMeasurement phiMeasurement"
  using Measurement_equality [where lhs = phiMeasurement and rhs = twinMeasurement
      and ps_equal = ParameterSet_equal and sl_equal = "(=)"]
    Measurement_equality [where lhs = phiMeasurement and rhs = phiMeasurement
      and ps_equal = ParameterSet_equal and sl_equal = "(=)"]
  by (simp add: phiMeasurement_def twinMeasurement_def sampleStore_def referenceObject_def
      ParameterSet_equal_def)

end
